theory Spec2Isabelle
  imports
    Complex_Main
    "HOL-Library.Char_ord"
    "HOL-Library.List_Lexorder"
    "HOL-Library.Product_Lexorder"
    "HOL-Library.Multiset"
begin

section \<open>Balanced shipping optimization: the script as functions\<close>

text \<open>
  \<^verbatim>\<open>supply_chain_optimization.py\<close> is a straight-line script: it groups the
  shipment table by (warehouse, mode), builds a linear program with PuLP, calls the
  solver and turns the solved variables into a result table. Each stage is a function
  here, named after the variable the script binds.

  Numbers are exact rationals. The script computes with IEEE doubles
  (\<^verbatim>\<open>0.2\<close>, \<^verbatim>\<open>1.1\<close>, column sums); rounding is not part of this model: a
  number below stands for the real number the expression denotes.
\<close>

subsection \<open>Input rows and the cost table\<close>

text \<open>
  A cell of a key column as \<^verbatim>\<open>read_csv\<close> delivers it: a column whose cells are all
  numeric holds numbers, any other column holds strings. Within a column all labels are
  of one kind.
\<close>

datatype label = Num rat | Str string

text \<open>
  A row of \<^verbatim>\<open>train.csv\<close>, with the three columns the script reads. A key cell that
  is empty (or one of the markers \<^verbatim>\<open>read_csv\<close> reads as missing, such as
  \<^verbatim>\<open>NA\<close>) is \<open>None\<close>. A missing weight is skipped by both sums of the script, so
  it behaves as the weight 0 and has no case of its own.
\<close>

record shipment =
  Warehouse_block :: "label option"
  Mode_of_Shipment :: "label option"
  Weight_in_gms :: rat

text \<open>\<^verbatim>\<open>data['Weight_in_kg'] = data['Weight_in_gms'] / 1000\<close>\<close>

definition Weight_in_kg :: "shipment \<Rightarrow> rat" where
  "Weight_in_kg r = Weight_in_gms r / 1000"

text \<open>The dict \<^verbatim>\<open>cost_per_kg\<close>, in insertion order (the order of \<^verbatim>\<open>keys()\<close>).\<close>

definition cost_per_kg :: "(string \<times> rat) list" where
  "cost_per_kg = [(''Flight'', 20), (''Ship'', 10), (''Road'', 5)]"

text \<open>
  \<^verbatim>\<open>cost_per_kg[mode]\<close> for a label of the table: the keys of the dict are strings,
  so a numeric label is never found. \<open>None\<close> is Python's \<^verbatim>\<open>KeyError\<close>.
\<close>

definition cost_of :: "label \<Rightarrow> rat option" where
  "cost_of mode = (case mode of Str s \<Rightarrow> map_of cost_per_kg s | Num n \<Rightarrow> None)"

subsection \<open>Errors the script can raise\<close>

type_synonym cell_key = "label \<times> label"

datatype dict_key = ModeKey label | CellKey cell_key

datatype error =
    KeyError dict_key  \<comment> \<open>a dict subscript with a key the dict does not hold\<close>
  | TypeError          \<comment> \<open>\<^verbatim>\<open>None * number\<close>\<close>

subsection \<open>Aggregation\<close>

text \<open>
  The group a row belongs to. \<^verbatim>\<open>groupby\<close> (with its default \<^verbatim>\<open>dropna=True\<close>)
  leaves a row out of every group when one of its key cells is missing.
\<close>

definition group_key :: "shipment \<Rightarrow> cell_key option" where
  "group_key r =
     (case Warehouse_block r of
        None \<Rightarrow> None
      | Some w \<Rightarrow> (case Mode_of_Shipment r of None \<Rightarrow> None | Some m \<Rightarrow> Some (w, m)))"

text \<open>
  The order \<^verbatim>\<open>groupby\<close> sorts the keys in: numbers by value, strings by character
  code, lexicographically, the warehouse before the mode. (Numbers are put before
  strings; the two never meet in one column.)
\<close>

definition label_rank :: "label \<Rightarrow> bool \<times> rat \<times> string" where
  "label_rank l = (case l of Num n \<Rightarrow> (False, n, []) | Str s \<Rightarrow> (True, 0, s))"

definition cell_rank :: "cell_key \<Rightarrow> (bool \<times> rat \<times> string) \<times> (bool \<times> rat \<times> string)" where
  "cell_rank k = (label_rank (fst k), label_rank (snd k))"

text \<open>The shipments of one group, in table order.\<close>

definition group_rows :: "shipment list \<Rightarrow> cell_key \<Rightarrow> shipment list" where
  "group_rows data k = filter (\<lambda>r. group_key r = Some k) data"

text \<open>
  \<^verbatim>\<open>data.groupby(['Warehouse_block', 'Mode_of_Shipment'])['Weight_in_kg'].sum().reset_index()\<close>:
  one row per key that occurs, keys in sorted order, each with the sum of the weights of
  the shipments of its group. A grouped row is the pair (key, summed weight).
\<close>

definition grouped_data :: "shipment list \<Rightarrow> (cell_key \<times> rat) list" where
  "grouped_data data =
     map (\<lambda>k. (k, sum_list (map Weight_in_kg (group_rows data k))))
       (sort_key cell_rank (remdups (List.map_filter group_key data)))"

text \<open>\<^verbatim>\<open>data['Weight_in_kg'].sum()\<close>: over all rows, grouped or not.\<close>

definition total_actual_weight :: "shipment list \<Rightarrow> rat" where
  "total_actual_weight data = sum_list (map Weight_in_kg data)"

text \<open>\<^verbatim>\<open>Series.unique()\<close>: the distinct values, in order of first appearance.\<close>

fun unique :: "'a list \<Rightarrow> 'a list" where
  "unique [] = []"
| "unique (x # xs) = x # unique (filter (\<lambda>y. y \<noteq> x) xs)"

subsection \<open>The linear program\<close>

text \<open>
  An \<^verbatim>\<open>LpVariable\<close> is identified by the index it was created for
  (PuLP names it \<^verbatim>\<open>Weight_<index>\<close>) and carries its bounds.
\<close>

record LpVariable =
  var_index :: cell_key
  lowBound :: "rat option"
  upBound :: "rat option"

text \<open>An affine expression without constant: variables with their coefficients.\<close>

type_synonym LpAffineExpression = "(LpVariable \<times> rat) list"

datatype constraint_sense = LpConstraintLE | LpConstraintEQ | LpConstraintGE

record LpConstraint =
  constraint_name :: "string option"
  lhs :: LpAffineExpression
  sense :: constraint_sense
  rhs :: rat

record LpProblem =
  objective :: LpAffineExpression
  constraints :: "LpConstraint list"

text \<open>
  \<^verbatim>\<open>LpVariable.dicts("Weight", [keys of grouped_data], lowBound=0)\<close>: a dict from
  each key to a fresh variable bounded below by 0, in the order of the grouped rows.
\<close>

definition decision_vars :: "(cell_key \<times> rat) list \<Rightarrow> (cell_key \<times> LpVariable) list" where
  "decision_vars grouped =
     map (\<lambda>row. (fst row, \<lparr>var_index = fst row, lowBound = Some 0, upBound = None\<rparr>)) grouped"

text \<open>\<^verbatim>\<open>pulp.lpSum\<close> of variables: each with coefficient 1.\<close>

definition lpSum :: "LpVariable list \<Rightarrow> LpAffineExpression" where
  "lpSum vs = map (\<lambda>v. (v, 1)) vs"

text \<open>\<^verbatim>\<open>var for key, var in decision_vars.items() if <test on key>\<close>\<close>

definition vars_where :: "(cell_key \<Rightarrow> bool) \<Rightarrow> (cell_key \<times> LpVariable) list \<Rightarrow> LpVariable list" where
  "vars_where P dv = map snd (filter (\<lambda>kv. P (fst kv)) dv)"

text \<open>
  The objective (lines 34-37): for each grouped row,
  \<^verbatim>\<open>decision_vars[(w, m)] * cost_per_kg[m]\<close>. Both subscripts are dict lookups that
  raise \<^verbatim>\<open>KeyError\<close> on a missing key; the left operand is evaluated first.
\<close>

fun objective_terms ::
  "(cell_key \<times> LpVariable) list \<Rightarrow> (cell_key \<times> rat) list \<Rightarrow> error + LpAffineExpression" where
  "objective_terms dv [] = Inr []"
| "objective_terms dv (row # rest) =
     (case map_of dv (fst row) of
        None \<Rightarrow> Inl (KeyError (CellKey (fst row)))
      | Some var \<Rightarrow>
          (case cost_of (snd (fst row)) of
             None \<Rightarrow> Inl (KeyError (ModeKey (snd (fst row))))
           | Some c \<Rightarrow>
               (case objective_terms dv rest of
                  Inl e \<Rightarrow> Inl e
                | Inr ts \<Rightarrow> Inr ((var, c) # ts))))"

text \<open>Constraint 1 (line 42): \<^verbatim>\<open>lpSum(decision_vars.values()) == total_actual_weight\<close>\<close>

definition total_weight_constraint :: "(cell_key \<times> LpVariable) list \<Rightarrow> rat \<Rightarrow> LpConstraint" where
  "total_weight_constraint dv T =
     \<lparr>constraint_name = None, lhs = lpSum (map snd dv), sense = LpConstraintEQ, rhs = T\<rparr>"

text \<open>
  Constraint 2 (lines 45-49), for one \<^verbatim>\<open>mode\<close> of \<^verbatim>\<open>cost_per_kg.keys()\<close>;
  \<^verbatim>\<open>key[1] == mode\<close> compares a label of the table with that string.
\<close>

definition min_allocation :: "(cell_key \<times> LpVariable) list \<Rightarrow> rat \<Rightarrow> string \<Rightarrow> LpConstraint" where
  "min_allocation dv T mode =
     \<lparr>constraint_name = Some (''min_'' @ mode @ ''_allocation''),
      lhs = lpSum (vars_where (\<lambda>key. snd key = Str mode) dv),
      sense = LpConstraintGE, rhs = (2 / 10) * T\<rparr>"

text \<open>Constraint 3 (lines 52-56).\<close>

definition max_allocation :: "(cell_key \<times> LpVariable) list \<Rightarrow> rat \<Rightarrow> string \<Rightarrow> LpConstraint" where
  "max_allocation dv T mode =
     \<lparr>constraint_name = Some (''max_'' @ mode @ ''_allocation''),
      lhs = lpSum (vars_where (\<lambda>key. snd key = Str mode) dv),
      sense = LpConstraintLE, rhs = (5 / 10) * T\<rparr>"

text \<open>
  Constraint 4 (lines 59-63), for one \<^verbatim>\<open>warehouse\<close>: the bound is 1.1 times the sum
  of the grouped rows of that warehouse.
\<close>

definition warehouse_capacity ::
  "(cell_key \<times> LpVariable) list \<Rightarrow> (cell_key \<times> rat) list \<Rightarrow> label \<Rightarrow> LpConstraint" where
  "warehouse_capacity dv grouped warehouse =
     \<lparr>constraint_name = None,
      lhs = lpSum (vars_where (\<lambda>key. fst key = warehouse) dv),
      sense = LpConstraintLE,
      rhs = (11 / 10) * sum_list (map snd (filter (\<lambda>row. fst (fst row) = warehouse) grouped))\<rparr>"

text \<open>
  Lines 19-63: the problem the script has built when it reaches \<^verbatim>\<open>problem.solve()\<close>,
  or the exception that stopped it. The objective is built first, so a failing cost
  lookup stops the script before any constraint is added.
\<close>

definition problem :: "shipment list \<Rightarrow> error + LpProblem" where
  "problem data =
     (let grouped = grouped_data data;
          T = total_actual_weight data;
          dv = decision_vars grouped
      in case objective_terms dv grouped of
           Inl e \<Rightarrow> Inl e
         | Inr obj \<Rightarrow>
             Inr \<lparr>objective = obj,
                  constraints =
                    total_weight_constraint dv T
                    # map (min_allocation dv T) (map fst cost_per_kg)
                    @ map (max_allocation dv T) (map fst cost_per_kg)
                    @ map (warehouse_capacity dv grouped) (unique (map (fst \<circ> fst) grouped))\<rparr>)"

subsection \<open>Solving and collecting the results\<close>

text \<open>
  \<^verbatim>\<open>problem.solve()\<close> runs an external solver. What the script can observe afterwards
  is the status that \<^verbatim>\<open>solve()\<close> returns (the script discards it) and the
  \<^verbatim>\<open>varValue\<close> the solver left in each variable: a number, or \<^verbatim>\<open>None\<close>.
  The solver is a parameter of the model.
\<close>

datatype LpStatus =
  LpStatusNotSolved | LpStatusOptimal | LpStatusInfeasible | LpStatusUnbounded | LpStatusUndefined

record solution =
  status :: LpStatus
  varValue :: "cell_key \<Rightarrow> rat option"

record result_row =
  Warehouse :: label
  Mode :: label
  Weight :: rat
  Cost :: rat

text \<open>
  Lines 69-76: one row per item of \<^verbatim>\<open>decision_vars\<close>. In
  \<^verbatim>\<open>var.varValue * cost_per_kg[key[1]]\<close> the subscript is evaluated before the
  product, so a missing mode raises \<^verbatim>\<open>KeyError\<close> and a missing value
  \<^verbatim>\<open>TypeError\<close>. An exception leaves no table: line 77 is not reached.
\<close>

fun results ::
  "(cell_key \<times> LpVariable) list \<Rightarrow> (cell_key \<Rightarrow> rat option) \<Rightarrow> error + result_row list" where
  "results [] vv = Inr []"
| "results ((key, var) # rest) vv =
     (case cost_of (snd key) of
        None \<Rightarrow> Inl (KeyError (ModeKey (snd key)))
      | Some c \<Rightarrow>
          (case vv (var_index var) of
             None \<Rightarrow> Inl TypeError
           | Some v \<Rightarrow>
               (case results rest vv of
                  Inl e \<Rightarrow> Inl e
                | Inr rows \<Rightarrow>
                    Inr (\<lparr>Warehouse = fst key, Mode = snd key, Weight = v, Cost = v * c\<rparr> # rows))))"

text \<open>Lines 19-77: the table \<^verbatim>\<open>results_df\<close>, or the exception that stopped the script.\<close>

definition results_df :: "(LpProblem \<Rightarrow> solution) \<Rightarrow> shipment list \<Rightarrow> error + result_row list" where
  "results_df solve data =
     (case problem data of
        Inl e \<Rightarrow> Inl e
      | Inr p \<Rightarrow> results (decision_vars (grouped_data data)) (varValue (solve p)))"

text \<open>
  \<^verbatim>\<open>pulp.value(problem.objective)\<close> (line 147): the objective evaluated at the
  variables' values, \<^verbatim>\<open>None\<close> as soon as a variable has none.
\<close>

fun lp_value :: "LpAffineExpression \<Rightarrow> (cell_key \<Rightarrow> rat option) \<Rightarrow> rat option" where
  "lp_value [] vv = Some 0"
| "lp_value ((v, c) # ts) vv =
     (case vv (var_index v) of
        None \<Rightarrow> None
      | Some y \<Rightarrow> (case lp_value ts vv of None \<Rightarrow> None | Some s \<Rightarrow> Some (y * c + s)))"

text \<open>A solver run that ends with the given solution, whatever the problem.\<close>

definition returning :: "solution \<Rightarrow> LpProblem \<Rightarrow> solution" where
  "returning s p = s"

subsection \<open>What a constraint means\<close>

text \<open>The value of a left-hand side under an assignment of the variables.\<close>

definition lhs_value :: "LpAffineExpression \<Rightarrow> (cell_key \<Rightarrow> rat) \<Rightarrow> rat" where
  "lhs_value e x = sum_list (map (\<lambda>t. snd t * x (var_index (fst t))) e)"

definition holds :: "(cell_key \<Rightarrow> rat) \<Rightarrow> LpConstraint \<Rightarrow> bool" where
  "holds x c =
     (case sense c of
        LpConstraintLE \<Rightarrow> lhs_value (lhs c) x \<le> rhs c
      | LpConstraintEQ \<Rightarrow> lhs_value (lhs c) x = rhs c
      | LpConstraintGE \<Rightarrow> lhs_value (lhs c) x \<ge> rhs c)"

definition within_bounds :: "(cell_key \<Rightarrow> rat) \<Rightarrow> LpVariable \<Rightarrow> bool" where
  "within_bounds x v =
     ((case lowBound v of None \<Rightarrow> True | Some l \<Rightarrow> l \<le> x (var_index v)) \<and>
      (case upBound v of None \<Rightarrow> True | Some u \<Rightarrow> x (var_index v) \<le> u))"

text \<open>An assignment is feasible when every constraint holds and every variable that
  occurs in the problem is within its bounds.\<close>

definition feasible :: "LpProblem \<Rightarrow> (cell_key \<Rightarrow> rat) \<Rightarrow> bool" where
  "feasible p x =
     (list_all (holds x) (constraints p) \<and>
      list_all (within_bounds x) (map fst (objective p @ concat (map lhs (constraints p)))))"

subsection \<open>The inputs of the examples\<close>

text \<open>Scenario A: one warehouse, one mode, 100 kg.\<close>

definition scenario_A :: "shipment list" where
  "scenario_A =
     [\<lparr>Warehouse_block = Some (Str ''A''), Mode_of_Shipment = Some (Str ''Road''),
       Weight_in_gms = 100000\<rparr>]"

text \<open>Scenario B: one warehouse, 40/30/30 kg by Flight/Ship/Road, the 30 kg by road in two shipments.\<close>

definition scenario_B :: "shipment list" where
  "scenario_B =
     [\<lparr>Warehouse_block = Some (Str ''A''), Mode_of_Shipment = Some (Str ''Road''),
       Weight_in_gms = 10000\<rparr>,
      \<lparr>Warehouse_block = Some (Str ''A''), Mode_of_Shipment = Some (Str ''Flight''),
       Weight_in_gms = 40000\<rparr>,
      \<lparr>Warehouse_block = Some (Str ''A''), Mode_of_Shipment = Some (Str ''Ship''),
       Weight_in_gms = 30000\<rparr>,
      \<lparr>Warehouse_block = Some (Str ''A''), Mode_of_Shipment = Some (Str ''Road''),
       Weight_in_gms = 20000\<rparr>]"

text \<open>The optimum of scenario B: Road at its 50 kg cap, Flight at its 20 kg floor.\<close>

definition scenario_B_values :: "cell_key \<Rightarrow> rat option" where
  "scenario_B_values =
     map_of [((Str ''A'', Str ''Flight''), 20), ((Str ''A'', Str ''Ship''), 30),
             ((Str ''A'', Str ''Road''), 50)]"






text \<open>One warehouse with 8 kg by air and 12 kg by road, in three shipments.\<close>

definition twenty_kg :: "shipment list" where
  "twenty_kg =
     [\<lparr>Warehouse_block = Some (Str ''A''), Mode_of_Shipment = Some (Str ''Road''),
       Weight_in_gms = 5000\<rparr>,
      \<lparr>Warehouse_block = Some (Str ''A''), Mode_of_Shipment = Some (Str ''Flight''),
       Weight_in_gms = 8000\<rparr>,
      \<lparr>Warehouse_block = Some (Str ''A''), Mode_of_Shipment = Some (Str ''Road''),
       Weight_in_gms = 7000\<rparr>]"

text \<open>Warehouses with numeric labels: 10 comes after 9.\<close>

definition numbered_blocks :: "shipment list" where
  "numbered_blocks =
     [\<lparr>Warehouse_block = Some (Num 10), Mode_of_Shipment = Some (Str ''Ship''),
       Weight_in_gms = 3000\<rparr>,
      \<lparr>Warehouse_block = Some (Num 9), Mode_of_Shipment = Some (Str ''Ship''),
       Weight_in_gms = 2000\<rparr>]"

text \<open>The value a solver may leave in the one variable of scenario A.\<close>

definition scenario_A_values :: "cell_key \<Rightarrow> rat option" where
  "scenario_A_values = map_of [((Str ''A'', Str ''Road''), 100)]"

text \<open>A solver that leaves \<^verbatim>\<open>None\<close> in every variable.\<close>

definition no_values :: "cell_key \<Rightarrow> rat option" where
  "no_values key = None"

text \<open>Two warehouses that ship by sea only, 100 kg together.\<close>

definition ship_only :: "shipment list" where
  "ship_only =
     [\<lparr>Warehouse_block = Some (Str ''C''), Mode_of_Shipment = Some (Str ''Ship''),
       Weight_in_gms = 40000\<rparr>,
      \<lparr>Warehouse_block = Some (Str ''B''), Mode_of_Shipment = Some (Str ''Ship''),
       Weight_in_gms = 60000\<rparr>]"

definition ship_only_values :: "cell_key \<Rightarrow> rat option" where
  "ship_only_values = map_of [((Str ''B'', Str ''Ship''), 60), ((Str ''C'', Str ''Ship''), 40)]"

section \<open>What the grouping keeps and what it drops\<close>

lemma sum_list_delta_add:
  fixes c :: "'a::comm_monoid_add"
  shows "distinct ks \<Longrightarrow>
     sum_list (map (\<lambda>k. (if a = k then c else 0) + g k) ks)
       = (if a \<in> set ks then c else 0) + sum_list (map g ks)"
  by (induction ks) (auto simp: ac_simps)

lemma sum_list_by_key:
  fixes f :: "'r \<Rightarrow> 'a::comm_monoid_add"
  assumes "distinct ks"
  shows "(\<forall>r \<in> set rs. P (key r) \<longrightarrow> key r \<in> set ks) \<Longrightarrow>
     sum_list (map (\<lambda>k. sum_list (map f (filter (\<lambda>r. key r = k) rs))) (filter P ks))
       = sum_list (map f (filter (\<lambda>r. P (key r)) rs))"
proof (induction rs)
  case Nil
  then show ?case by simp
next
  case (Cons r rs)
  let ?S = "\<lambda>k. sum_list (map f (filter (\<lambda>r. key r = k) rs))"
  have step: "sum_list (map f (filter (\<lambda>r. key r = k) (r # rs)))
      = (if key r = k then f r else 0) + ?S k" for k
    by simp
  have d: "distinct (filter P ks)"
    using assms by simp
  have mem: "key r \<in> set (filter P ks) \<longleftrightarrow> P (key r)"
    using Cons.prems by auto
  have "sum_list (map (\<lambda>k. sum_list (map f (filter (\<lambda>r. key r = k) (r # rs)))) (filter P ks))
      = sum_list (map (\<lambda>k. (if key r = k then f r else 0) + ?S k) (filter P ks))"
    by (simp only: step)
  also have "\<dots> = (if P (key r) then f r else 0) + sum_list (map ?S (filter P ks))"
    using sum_list_delta_add [OF d, of "key r" "f r" ?S] mem by simp
  also have "sum_list (map ?S (filter P ks)) = sum_list (map f (filter (\<lambda>r. P (key r)) rs))"
    using Cons.IH Cons.prems by simp
  finally show ?case by simp
qed

lemma set_map_filter: "set (List.map_filter g xs) = {y. \<exists>x \<in> set xs. g x = Some y}"
  by (induction xs) (auto split: option.splits)

lemma grouped_keys:
  "map fst (grouped_data data) = sort_key cell_rank (remdups (List.map_filter group_key data))"
  by (simp add: grouped_data_def comp_def)

lemma grouped_keys_distinct: "distinct (map fst (grouped_data data))"
  by (simp add: grouped_keys)

lemma grouped_keys_set:
  "set (map fst (grouped_data data)) = {k. \<exists>r \<in> set data. group_key r = Some k}"
  by (simp only: grouped_keys set_sort set_remdups set_map_filter)

lemma grouped_weights:
  "map snd (grouped_data data)
     = map (\<lambda>k. sum_list (map Weight_in_kg (group_rows data k))) (map fst (grouped_data data))"
  by (simp add: grouped_data_def comp_def)

lemma sum_list_by_group:
  fixes f :: "shipment \<Rightarrow> 'a::comm_monoid_add"
  shows "sum_list (map (\<lambda>k. sum_list (map f (group_rows data k))) (map fst (grouped_data data)))
     = sum_list (map f (filter (\<lambda>r. group_key r \<noteq> None) data))"
proof -
  define ks where "ks = map fst (grouped_data data)"
  let ?P = "\<lambda>k :: cell_key option. k \<noteq> None"
  have dks: "distinct ks" and sks: "set ks = {k. \<exists>r \<in> set data. group_key r = Some k}"
    unfolding ks_def by (rule grouped_keys_distinct, rule grouped_keys_set)
  have d: "distinct (map Some ks)"
    using dks by (simp add: distinct_map)
  have cover: "\<forall>r \<in> set data. ?P (group_key r) \<longrightarrow> group_key r \<in> set (map Some ks)"
    using sks by auto
  have "sum_list (map (\<lambda>k. sum_list (map f (group_rows data k))) ks)
      = sum_list (map (\<lambda>k. sum_list (map f (filter (\<lambda>r. group_key r = k) data)))
          (filter ?P (map Some ks)))"
    by (simp add: group_rows_def comp_def filter_map)
  also have "\<dots> = sum_list (map f (filter (\<lambda>r. ?P (group_key r)) data))"
    using d cover by (rule sum_list_by_key)
  finally show ?thesis
    unfolding ks_def .
qed



text \<open>
  Numeric labels are sorted by value: warehouse 9 comes before warehouse 10.
\<close>

lemma grouped_data_numbered_blocks:
  "grouped_data numbered_blocks = [((Num 9, Str ''Ship''), 2), ((Num 10, Str ''Ship''), 3)]"
  by (simp add: grouped_data_def numbered_blocks_def group_key_def group_rows_def Weight_in_kg_def
      cell_rank_def label_rank_def)

text \<open>
  In exact arithmetic the cells add up to the weight of the grouped shipments. The
  doubles of the script agree with this up to rounding only, and the grand total
  also counts the shipments that are in no group.
\<close>

lemma grouped_total_exact:
  "sum_list (map snd (grouped_data data))
     = sum_list (map Weight_in_kg (filter (\<lambda>r. group_key r \<noteq> None) data))"
  by (simp only: grouped_weights sum_list_by_group)



section \<open>The constraints of the problem\<close>

lemma set_unique: "set (unique xs) = set xs"
  by (induction xs rule: unique.induct) auto

lemma decision_vars_keys: "map fst (decision_vars g) = map fst g"
  by (simp add: decision_vars_def comp_def)

lemma lhs_value_all:
  "lhs_value (lpSum (map snd (decision_vars g))) x = sum_list (map x (map fst g))"
  by (simp add: lhs_value_def lpSum_def decision_vars_def comp_def)

lemma lhs_value_where:
  "lhs_value (lpSum (vars_where P (decision_vars g))) x = sum_list (map x (filter P (map fst g)))"
  by (induction g) (simp_all add: lhs_value_def lpSum_def vars_where_def decision_vars_def)

lemma problem_constraints:
  assumes "problem data = Inr p"
  shows "constraints p =
     total_weight_constraint (decision_vars (grouped_data data)) (total_actual_weight data)
     # map (min_allocation (decision_vars (grouped_data data)) (total_actual_weight data))
         (map fst cost_per_kg)
     @ map (max_allocation (decision_vars (grouped_data data)) (total_actual_weight data))
         (map fst cost_per_kg)
     @ map (warehouse_capacity (decision_vars (grouped_data data)) (grouped_data data))
         (unique (map (fst \<circ> fst) (grouped_data data)))"
  using assms by (auto simp: problem_def Let_def split: sum.splits)

lemma problem_objective:
  assumes "problem data = Inr p"
  shows "objective_terms (decision_vars (grouped_data data)) (grouped_data data) = Inr (objective p)"
  using assms by (auto simp: problem_def Let_def split: sum.splits)

lemma grouped_data_scenario_A: "grouped_data scenario_A = [((Str ''A'', Str ''Road''), 100)]"
  by (simp add: grouped_data_def scenario_A_def group_key_def group_rows_def Weight_in_kg_def
      cell_rank_def label_rank_def)

lemma grouped_data_scenario_B:
  "grouped_data scenario_B = [((Str ''A'', Str ''Flight''), 40), ((Str ''A'', Str ''Road''), 30), ((Str ''A'', Str ''Ship''), 30)]"
  by (simp add: grouped_data_def scenario_B_def group_key_def group_rows_def Weight_in_kg_def
      cell_rank_def label_rank_def)

lemma total_scenario_A: "total_actual_weight scenario_A = 100"
  by (simp add: total_actual_weight_def scenario_A_def Weight_in_kg_def)

lemma total_scenario_B: "total_actual_weight scenario_B = 100"
  by (simp add: total_actual_weight_def scenario_B_def Weight_in_kg_def)

lemma problem_scenario_B_built: "\<exists>p. problem scenario_B = Inr p"
  by (simp add: problem_def Let_def grouped_data_scenario_B decision_vars_def cost_of_def
      cost_per_kg_def)

lemma problem_scenario_A_built: "\<exists>p. problem scenario_A = Inr p"
  by (simp add: problem_def Let_def grouped_data_scenario_A decision_vars_def cost_of_def
      cost_per_kg_def)

text \<open>
  C1. Whenever the script gets as far as building the problem, the problem contains
  the mass-balance constraint: an equality (sense \<^verbatim>\<open>==\<close>, not an inequality) that
  holds under an assignment exactly when the values of all decision variables sum to
  the grand total weight, the sum of the weights of all shipments.
\<close>

theorem mass_balance_constraint:
  "problem data = Inr p \<Longrightarrow>
     total_weight_constraint (decision_vars (grouped_data data)) (total_actual_weight data)
       \<in> set (constraints p)
     \<and> sense (total_weight_constraint (decision_vars (grouped_data data)) (total_actual_weight data))
         = LpConstraintEQ
     \<and> (holds x (total_weight_constraint (decision_vars (grouped_data data)) (total_actual_weight data))
          \<longleftrightarrow> sum_list (map x (map fst (decision_vars (grouped_data data))))
                = sum_list (map Weight_in_kg data))"
  by (simp add: problem_constraints total_weight_constraint_def holds_def lhs_value_all
      decision_vars_keys total_actual_weight_def)

text \<open>
  In scenario B the constraint reads
  \<^verbatim>\<open>Weight_A_Flight + Weight_A_Road + Weight_A_Ship == 100\<close>.
\<close>

theorem mass_balance_constraint_witness:
  "\<exists>p. problem scenario_B = Inr p
     \<and> \<lparr>constraint_name = None,
         lhs = [(\<lparr>var_index = (Str ''A'', Str ''Flight''), lowBound = Some 0, upBound = None\<rparr>, 1),
                (\<lparr>var_index = (Str ''A'', Str ''Road''), lowBound = Some 0, upBound = None\<rparr>, 1),
                (\<lparr>var_index = (Str ''A'', Str ''Ship''), lowBound = Some 0, upBound = None\<rparr>, 1)],
         sense = LpConstraintEQ, rhs = 100\<rparr> \<in> set (constraints p)"
proof -
  obtain p where p: "problem scenario_B = Inr p"
    using problem_scenario_B_built by blast
  from mass_balance_constraint [OF p] show ?thesis
    using p by (simp add: total_weight_constraint_def grouped_data_scenario_B total_scenario_B
        decision_vars_def lpSum_def)
qed

text \<open>
  C2. For every key \<open>m\<close> of the cost table, whether or not any shipment uses that
  mode, the problem contains a floor and a cap on the decision variables of mode
  \<open>m\<close>: their sum is at least 0.2 times and at most 0.5 times the grand total weight.
\<close>

theorem mode_share_constraints:
  "problem data = Inr p \<Longrightarrow> m \<in> set (map fst cost_per_kg) \<Longrightarrow>
     min_allocation (decision_vars (grouped_data data)) (total_actual_weight data) m
       \<in> set (constraints p)
     \<and> max_allocation (decision_vars (grouped_data data)) (total_actual_weight data) m
       \<in> set (constraints p)
     \<and> (holds x (min_allocation (decision_vars (grouped_data data)) (total_actual_weight data) m)
          \<longleftrightarrow> (2 / 10) * sum_list (map Weight_in_kg data)
                \<le> sum_list (map x (filter (\<lambda>key. snd key = Str m)
                                     (map fst (decision_vars (grouped_data data))))))
     \<and> (holds x (max_allocation (decision_vars (grouped_data data)) (total_actual_weight data) m)
          \<longleftrightarrow> sum_list (map x (filter (\<lambda>key. snd key = Str m)
                                  (map fst (decision_vars (grouped_data data)))))
                \<le> (5 / 10) * sum_list (map Weight_in_kg data))"
proof -
  assume p: "problem data = Inr p" and m: "m \<in> set (map fst cost_per_kg)"
  let ?dv = "decision_vars (grouped_data data)"
  let ?T = "total_actual_weight data"
  have "min_allocation ?dv ?T m \<in> set (constraints p)"
    using m by (auto simp: problem_constraints [OF p])
  moreover have "max_allocation ?dv ?T m \<in> set (constraints p)"
    using m by (auto simp: problem_constraints [OF p])
  moreover have "holds x (min_allocation ?dv ?T m)
      \<longleftrightarrow> (2 / 10) * sum_list (map Weight_in_kg data)
           \<le> sum_list (map x (filter (\<lambda>key. snd key = Str m) (map fst ?dv)))"
    by (simp add: min_allocation_def holds_def lhs_value_where
        decision_vars_keys total_actual_weight_def)
  moreover have "holds x (max_allocation ?dv ?T m)
      \<longleftrightarrow> sum_list (map x (filter (\<lambda>key. snd key = Str m) (map fst ?dv)))
           \<le> (5 / 10) * sum_list (map Weight_in_kg data)"
    by (simp add: max_allocation_def holds_def lhs_value_where
        decision_vars_keys total_actual_weight_def)
  ultimately show ?thesis by blast
qed

text \<open>
  Scenario A ships by road only; the floor and the cap for \<^verbatim>\<open>Flight\<close> are there all
  the same, over an empty sum.
\<close>

theorem mode_share_constraints_witness:
  "\<exists>p. problem scenario_A = Inr p
     \<and> \<lparr>constraint_name = Some ''min_Flight_allocation'', lhs = [],
         sense = LpConstraintGE, rhs = 20\<rparr> \<in> set (constraints p)
     \<and> \<lparr>constraint_name = Some ''max_Flight_allocation'', lhs = [],
         sense = LpConstraintLE, rhs = 50\<rparr> \<in> set (constraints p)"
proof -
  obtain p where p: "problem scenario_A = Inr p"
    using problem_scenario_A_built by blast
  have m: "''Flight'' \<in> set (map fst cost_per_kg)"
    by (simp add: cost_per_kg_def)
  from mode_share_constraints [OF p m] show ?thesis
    using p by (simp add: min_allocation_def max_allocation_def grouped_data_scenario_A
        total_scenario_A decision_vars_def lpSum_def vars_where_def)
qed

lemma grouped_data_twenty_kg:
  "grouped_data twenty_kg = [((Str ''A'', Str ''Flight''), 8), ((Str ''A'', Str ''Road''), 12)]"
  by (simp add: grouped_data_def twenty_kg_def group_key_def group_rows_def Weight_in_kg_def
      cell_rank_def label_rank_def)

lemma problem_twenty_kg_built: "\<exists>p. problem twenty_kg = Inr p"
  by (simp add: problem_def Let_def grouped_data_twenty_kg decision_vars_def cost_of_def
      cost_per_kg_def)

text \<open>
  C3. For every warehouse of the grouped table, the problem contains a constraint that
  bounds the sum of the decision variables of that warehouse above by 1.1 times the
  weight aggregated at that warehouse, the sum of its grouped rows.
\<close>

theorem warehouse_capacity_constraints:
  "problem data = Inr p \<Longrightarrow> w \<in> set (map (fst \<circ> fst) (grouped_data data)) \<Longrightarrow>
     warehouse_capacity (decision_vars (grouped_data data)) (grouped_data data) w
       \<in> set (constraints p)
     \<and> sense (warehouse_capacity (decision_vars (grouped_data data)) (grouped_data data) w)
         = LpConstraintLE
     \<and> (holds x (warehouse_capacity (decision_vars (grouped_data data)) (grouped_data data) w)
          \<longleftrightarrow> sum_list (map x (filter (\<lambda>key. fst key = w)
                                  (map fst (decision_vars (grouped_data data)))))
                \<le> (11 / 10) * sum_list (map snd (filter (\<lambda>row. fst (fst row) = w)
                                                    (grouped_data data))))"
proof -
  assume p: "problem data = Inr p" and w: "w \<in> set (map (fst \<circ> fst) (grouped_data data))"
  let ?dv = "decision_vars (grouped_data data)"
  let ?g = "grouped_data data"
  have "warehouse_capacity ?dv ?g w \<in> set (constraints p)"
    using w by (auto simp: problem_constraints [OF p] set_unique)
  moreover have "sense (warehouse_capacity ?dv ?g w) = LpConstraintLE"
    by (simp add: warehouse_capacity_def)
  moreover have "holds x (warehouse_capacity ?dv ?g w)
      \<longleftrightarrow> sum_list (map x (filter (\<lambda>key. fst key = w) (map fst ?dv)))
           \<le> (11 / 10) * sum_list (map snd (filter (\<lambda>row. fst (fst row) = w) ?g))"
    by (simp add: warehouse_capacity_def holds_def lhs_value_where decision_vars_keys)
  ultimately show ?thesis by blast
qed

text \<open>
  Warehouse A with 8 kg by air and 12 kg by road: its two variables may sum to 22 at most.
\<close>

theorem warehouse_capacity_constraints_witness:
  "\<exists>p. problem twenty_kg = Inr p
     \<and> \<lparr>constraint_name = None,
         lhs = [(\<lparr>var_index = (Str ''A'', Str ''Flight''), lowBound = Some 0, upBound = None\<rparr>, 1),
                (\<lparr>var_index = (Str ''A'', Str ''Road''), lowBound = Some 0, upBound = None\<rparr>, 1)],
         sense = LpConstraintLE, rhs = 22\<rparr> \<in> set (constraints p)"
proof -
  obtain p where p: "problem twenty_kg = Inr p"
    using problem_twenty_kg_built by blast
  have w: "Str ''A'' \<in> set (map (fst \<circ> fst) (grouped_data twenty_kg))"
    by (simp add: grouped_data_twenty_kg)
  from warehouse_capacity_constraints [OF p w] show ?thesis
    using p by (simp add: warehouse_capacity_def grouped_data_twenty_kg
        decision_vars_def lpSum_def vars_where_def)
qed

section \<open>Cost lookups, result rows and the objective value\<close>

lemma map_of_decision_vars:
  "k \<in> fst ` set g \<Longrightarrow>
     map_of (decision_vars g) k = Some \<lparr>var_index = k, lowBound = Some 0, upBound = None\<rparr>"
  by (induction g) (auto simp: decision_vars_def)

lemma cost_of_None: "cost_of m = None \<longleftrightarrow> m \<notin> Str ` set (map fst cost_per_kg)"
  by (cases m) (auto simp: cost_of_def map_of_eq_None_iff)

lemma cost_of_Some: "cost_of m = Some c \<longleftrightarrow> (\<exists>s. m = Str s \<and> map_of cost_per_kg s = Some c)"
  by (cases m) (simp_all add: cost_of_def)

lemma decision_vars_Cons:
  "decision_vars (row # g)
     = (fst row, \<lparr>var_index = fst row, lowBound = Some 0, upBound = None\<rparr>) # decision_vars g"
  by (simp add: decision_vars_def)

lemma objective_terms_known:
  "set g' \<subseteq> set g \<Longrightarrow> \<forall>row \<in> set g'. snd (fst row) \<in> Str ` set (map fst cost_per_kg) \<Longrightarrow>
     \<exists>obj. objective_terms (decision_vars g) g' = Inr obj"
proof (induction g')
  case Nil
  then show ?case by simp
next
  case (Cons row g')
  then obtain obj where "objective_terms (decision_vars g) g' = Inr obj"
    by auto
  moreover have "fst row \<in> fst ` set g"
    using Cons.prems(1) by auto
  moreover obtain c where "cost_of (snd (fst row)) = Some c"
    using Cons.prems(2) cost_of_None [of "snd (fst row)"] by fastforce
  ultimately show ?case
    by (simp add: map_of_decision_vars)
qed

lemma objective_terms_unknown:
  "set g' \<subseteq> set g \<Longrightarrow> \<exists>row \<in> set g'. snd (fst row) \<notin> Str ` set (map fst cost_per_kg) \<Longrightarrow>
     \<exists>m. m \<in> set (map (snd \<circ> fst) g') \<and> m \<notin> Str ` set (map fst cost_per_kg)
        \<and> objective_terms (decision_vars g) g' = Inl (KeyError (ModeKey m))"
proof (induction g')
  case Nil
  then show ?case by simp
next
  case (Cons row g')
  have var: "map_of (decision_vars g) (fst row)
      = Some \<lparr>var_index = fst row, lowBound = Some 0, upBound = None\<rparr>"
    using Cons.prems(1) by (intro map_of_decision_vars) auto
  show ?case
  proof (cases "cost_of (snd (fst row))")
    case None
    then have "snd (fst row) \<notin> Str ` set (map fst cost_per_kg)"
      using cost_of_None by blast
    then show ?thesis
      using None var by (intro exI [of _ "snd (fst row)"]) simp
  next
    case (Some c)
    then have "snd (fst row) \<in> Str ` set (map fst cost_per_kg)"
      using cost_of_None [of "snd (fst row)"] by auto
    then have "\<exists>row \<in> set g'. snd (fst row) \<notin> Str ` set (map fst cost_per_kg)"
      using Cons.prems(2) by auto
    then obtain m where m: "m \<in> set (map (snd \<circ> fst) g')" "m \<notin> Str ` set (map fst cost_per_kg)"
        "objective_terms (decision_vars g) g' = Inl (KeyError (ModeKey m))"
      using Cons.IH Cons.prems(1) by auto
    then show ?thesis
      using Some var by (intro exI [of _ m]) simp
  qed
qed


lemma cost_consistency_aux:
  "set g' \<subseteq> set g \<Longrightarrow> objective_terms (decision_vars g) g' = Inr obj \<Longrightarrow>
   results (decision_vars g') vv = Inr rows \<Longrightarrow>
     lp_value obj vv = Some (sum_list (map Cost rows))
     \<and> (\<forall>row \<in> set rows. \<exists>s c. Mode row = Str s \<and> map_of cost_per_kg s = Some c
                               \<and> Cost row = Weight row * c)"
proof (induction g' arbitrary: obj rows)
  case Nil
  then show ?case by (simp add: decision_vars_def)
next
  case (Cons row g')
  have var: "map_of (decision_vars g) (fst row)
      = Some \<lparr>var_index = fst row, lowBound = Some 0, upBound = None\<rparr>"
    using Cons.prems(1) by (intro map_of_decision_vars) auto
  from Cons.prems(2) var obtain c ts where
    c: "cost_of (snd (fst row)) = Some c" and
    ts: "objective_terms (decision_vars g) g' = Inr ts" and
    obj: "obj = (\<lparr>var_index = fst row, lowBound = Some 0, upBound = None\<rparr>, c) # ts"
    by (auto split: option.splits sum.splits)
  from Cons.prems(3) c obtain v rows' where
    v: "vv (fst row) = Some v" and
    rows': "results (decision_vars g') vv = Inr rows'" and
    rows: "rows = \<lparr>Warehouse = fst (fst row), Mode = snd (fst row), Weight = v, Cost = v * c\<rparr> # rows'"
    unfolding decision_vars_Cons by (auto split: option.splits sum.splits)
  obtain s where s: "snd (fst row) = Str s" "map_of cost_per_kg s = Some c"
    using c cost_of_Some by blast
  have IH: "lp_value ts vv = Some (sum_list (map Cost rows'))
     \<and> (\<forall>row \<in> set rows'. \<exists>s c. Mode row = Str s \<and> map_of cost_per_kg s = Some c
                               \<and> Cost row = Weight row * c)"
    using Cons.IH [OF _ ts rows'] Cons.prems(1) by simp
  show ?case
    using IH s v by (simp add: obj rows)
qed

text \<open>
  C4. Whenever the script produces its result table, the cost of each row is the row's
  weight times the cost-table entry of the row's mode, and the objective value
  \<^verbatim>\<open>pulp.value(problem.objective)\<close>, taken at the values the solver left, is the sum
  of the costs of all rows.
\<close>

theorem cost_consistency:
  "results_df solve data = Inr rows \<Longrightarrow>
     \<exists>p. problem data = Inr p
        \<and> (\<forall>row \<in> set rows. \<exists>s c. Mode row = Str s \<and> map_of cost_per_kg s = Some c
                                 \<and> Cost row = Weight row * c)
        \<and> lp_value (objective p) (varValue (solve p)) = Some (sum_list (map Cost rows))"
proof -
  assume run: "results_df solve data = Inr rows"
  then obtain p where p: "problem data = Inr p"
    and rows: "results (decision_vars (grouped_data data)) (varValue (solve p)) = Inr rows"
    by (auto simp: results_df_def split: sum.splits)
  from cost_consistency_aux [OF subset_refl problem_objective [OF p] rows] p
  show ?thesis by blast
qed

lemma results_scenario_B:
  "results (decision_vars (grouped_data scenario_B)) scenario_B_values =
     Inr [\<lparr>Warehouse = Str ''A'', Mode = Str ''Flight'', Weight = 20, Cost = 400\<rparr>,
          \<lparr>Warehouse = Str ''A'', Mode = Str ''Road'', Weight = 50, Cost = 250\<rparr>,
          \<lparr>Warehouse = Str ''A'', Mode = Str ''Ship'', Weight = 30, Cost = 300\<rparr>]"
  by (simp add: grouped_data_scenario_B decision_vars_def cost_of_def cost_per_kg_def
      scenario_B_values_def)

text \<open>
  Scenario B at its optimum: rows of cost 400, 250 and 300, objective value 950.
\<close>

theorem cost_consistency_witness:
  "results_df (returning \<lparr>status = LpStatusOptimal, varValue = scenario_B_values\<rparr>) scenario_B =
     Inr [\<lparr>Warehouse = Str ''A'', Mode = Str ''Flight'', Weight = 20, Cost = 400\<rparr>,
          \<lparr>Warehouse = Str ''A'', Mode = Str ''Road'', Weight = 50, Cost = 250\<rparr>,
          \<lparr>Warehouse = Str ''A'', Mode = Str ''Ship'', Weight = 30, Cost = 300\<rparr>]
   \<and> (\<exists>p. problem scenario_B = Inr p \<and> lp_value (objective p) scenario_B_values = Some 950)"
proof -
  have run: "results_df (returning \<lparr>status = LpStatusOptimal, varValue = scenario_B_values\<rparr>) scenario_B =
     Inr [\<lparr>Warehouse = Str ''A'', Mode = Str ''Flight'', Weight = 20, Cost = 400\<rparr>,
          \<lparr>Warehouse = Str ''A'', Mode = Str ''Road'', Weight = 50, Cost = 250\<rparr>,
          \<lparr>Warehouse = Str ''A'', Mode = Str ''Ship'', Weight = 30, Cost = 300\<rparr>]"
    using problem_scenario_B_built
    by (auto simp: results_df_def returning_def results_scenario_B)
  from cost_consistency [OF run] show ?thesis
    using run by (auto simp: returning_def)
qed

section \<open>Modes the cost table does not know\<close>



lemma problem_known:
  assumes "\<forall>row \<in> set (grouped_data data). snd (fst row) \<in> Str ` set (map fst cost_per_kg)"
  shows "\<exists>p. problem data = Inr p"
proof -
  obtain obj where
    "objective_terms (decision_vars (grouped_data data)) (grouped_data data) = Inr obj"
    using objective_terms_known [OF subset_refl assms] by (rule exE)
  then show ?thesis
    by (simp add: problem_def Let_def)
qed

lemma problem_unknown:
  assumes "\<exists>row \<in> set (grouped_data data). snd (fst row) \<notin> Str ` set (map fst cost_per_kg)"
  shows "\<exists>m. m \<in> set (map (snd \<circ> fst) (grouped_data data))
           \<and> m \<notin> Str ` set (map fst cost_per_kg)
           \<and> problem data = Inl (KeyError (ModeKey m))"
proof -
  obtain m where "m \<in> set (map (snd \<circ> fst) (grouped_data data))"
      "m \<notin> Str ` set (map fst cost_per_kg)"
      "objective_terms (decision_vars (grouped_data data)) (grouped_data data)
         = Inl (KeyError (ModeKey m))"
    using objective_terms_unknown [OF subset_refl assms] by blast
  then show ?thesis
    by (intro exI [of _ m]) (simp add: problem_def Let_def)
qed

lemma problem_built_known:
  assumes "problem data = Inr p"
  shows "\<forall>row \<in> set (grouped_data data). snd (fst row) \<in> Str ` set (map fst cost_per_kg)"
proof (rule ccontr)
  assume "\<not> ?thesis"
  then have "\<exists>row \<in> set (grouped_data data). snd (fst row) \<notin> Str ` set (map fst cost_per_kg)"
    by simp
  then obtain m where "problem data = Inl (KeyError (ModeKey m))"
    using problem_unknown by blast
  with assms show False by simp
qed











section \<open>The solve status is never read\<close>

lemma results_rows:
  "results (decision_vars g) vv = Inr rows \<Longrightarrow>
     map (\<lambda>row. (Warehouse row, Mode row)) rows = map fst g
     \<and> map (\<lambda>row. Some (Weight row)) rows = map vv (map fst g)"
proof (induction g arbitrary: rows)
  case Nil
  then show ?case by (simp add: decision_vars_def)
next
  case (Cons row g)
  have dv: "decision_vars (row # g)
      = (fst row, \<lparr>var_index = fst row, lowBound = Some 0, upBound = None\<rparr>) # decision_vars g"
    by (simp add: decision_vars_def)
  from Cons.prems obtain c v rows' where
    "vv (fst row) = Some v" "results (decision_vars g) vv = Inr rows'"
    "rows = \<lparr>Warehouse = fst (fst row), Mode = snd (fst row), Weight = v, Cost = v * c\<rparr> # rows'"
    unfolding dv by (auto split: option.splits sum.splits)
  then show ?case
    using Cons.IH by simp
qed

lemma results_missing_value:
  "\<forall>row \<in> set g. snd (fst row) \<in> Str ` set (map fst cost_per_kg) \<Longrightarrow>
   \<exists>k \<in> set (map fst g). vv k = None \<Longrightarrow>
     results (decision_vars g) vv = Inl TypeError"
proof (induction g)
  case Nil
  then show ?case by simp
next
  case (Cons row g)
  have dv: "decision_vars (row # g)
      = (fst row, \<lparr>var_index = fst row, lowBound = Some 0, upBound = None\<rparr>) # decision_vars g"
    by (simp add: decision_vars_def)
  obtain c where c: "cost_of (snd (fst row)) = Some c"
    using Cons.prems(1) cost_of_None [of "snd (fst row)"] by fastforce
  show ?case
  proof (cases "vv (fst row)")
    case None
    then show ?thesis by (simp add: dv c)
  next
    case (Some v)
    then have "\<exists>k \<in> set (map fst g). vv k = None"
      using Cons.prems(2) by auto
    then have "results (decision_vars g) vv = Inl TypeError"
      using Cons.IH Cons.prems(1) by simp
    then show ?thesis by (simp add: dv c Some)
  qed
qed

lemma results_all_values:
  "\<forall>row \<in> set g. snd (fst row) \<in> Str ` set (map fst cost_per_kg) \<Longrightarrow>
   \<forall>k \<in> set (map fst g). vv k \<noteq> None \<Longrightarrow>
     \<exists>rows. results (decision_vars g) vv = Inr rows"
proof (induction g)
  case Nil
  then show ?case by (simp add: decision_vars_def)
next
  case (Cons row g)
  have dv: "decision_vars (row # g)
      = (fst row, \<lparr>var_index = fst row, lowBound = Some 0, upBound = None\<rparr>) # decision_vars g"
    by (simp add: decision_vars_def)
  obtain c where c: "cost_of (snd (fst row)) = Some c"
    using Cons.prems(1) cost_of_None [of "snd (fst row)"] by fastforce
  obtain v where v: "vv (fst row) = Some v"
    using Cons.prems(2) by auto
  obtain rows where "results (decision_vars g) vv = Inr rows"
    using Cons.IH Cons.prems by auto
  then show ?case by (simp add: dv c v)
qed

text \<open>
  C7, as the script behaves. The result collection does not look at the status of the
  solve. Two solver runs that leave the same values in the variables give the same
  outcome whatever statuses they report. Once the problem is built, the script produces
  a table exactly when every decision variable has a value: then the table has one row
  per decision variable, in the order of the grouped table, carrying that value; if
  some variable has no value, the script stops with \<^verbatim>\<open>TypeError\<close> and there is no
  table. So a table is complete or absent, but a status other than optimal is neither
  checked nor passed on.
\<close>

theorem results_ignore_status:
  "((\<forall>p. varValue (solve p) = varValue (solve' p)) \<longrightarrow>
       results_df solve data = results_df solve' data)
   \<and> (problem data = Inr p \<longrightarrow>
        (if \<forall>k \<in> set (map fst (grouped_data data)). varValue (solve p) k \<noteq> None
         then \<exists>rows. results_df solve data = Inr rows
                \<and> map (\<lambda>row. (Warehouse row, Mode row)) rows = map fst (grouped_data data)
                \<and> map (\<lambda>row. Some (Weight row)) rows
                    = map (varValue (solve p)) (map fst (grouped_data data))
         else results_df solve data = Inl TypeError))"
proof (intro conjI impI)
  assume same: "\<forall>p. varValue (solve p) = varValue (solve' p)"
  show "results_df solve data = results_df solve' data"
  proof (cases "problem data")
    case (Inl e)
    then show ?thesis by (simp add: results_df_def)
  next
    case (Inr q)
    have "varValue (solve q) = varValue (solve' q)"
      using same by (rule spec)
    then show ?thesis by (simp add: results_df_def Inr)
  qed
next
  assume p: "problem data = Inr p"
  let ?g = "grouped_data data"
  let ?vv = "varValue (solve p)"
  have run: "results_df solve data = results (decision_vars ?g) ?vv"
    by (simp add: results_df_def p)
  have known: "\<forall>row \<in> set ?g. snd (fst row) \<in> Str ` set (map fst cost_per_kg)"
    using p by (rule problem_built_known)
  show "if \<forall>k \<in> set (map fst ?g). ?vv k \<noteq> None
     then \<exists>rows. results_df solve data = Inr rows
            \<and> map (\<lambda>row. (Warehouse row, Mode row)) rows = map fst ?g
            \<and> map (\<lambda>row. Some (Weight row)) rows = map ?vv (map fst ?g)
     else results_df solve data = Inl TypeError"
  proof (cases "\<forall>k \<in> set (map fst ?g). ?vv k \<noteq> None")
    case True
    obtain rows where rows: "results (decision_vars ?g) ?vv = Inr rows"
      using results_all_values [OF known True] by (rule exE)
    have "results_df solve data = Inr rows
        \<and> map (\<lambda>row. (Warehouse row, Mode row)) rows = map fst ?g
        \<and> map (\<lambda>row. Some (Weight row)) rows = map ?vv (map fst ?g)"
      using results_rows [OF rows] rows by (simp only: run simp_thms)
    then have "\<exists>rows. results_df solve data = Inr rows
        \<and> map (\<lambda>row. (Warehouse row, Mode row)) rows = map fst ?g
        \<and> map (\<lambda>row. Some (Weight row)) rows = map ?vv (map fst ?g)"
      by (rule exI)
    then show ?thesis
      unfolding if_P [OF True] .
  next
    case False
    then have "\<exists>k \<in> set (map fst ?g). ?vv k = None"
      by simp
    then have "results (decision_vars ?g) ?vv = Inl TypeError"
      by (rule results_missing_value [OF known])
    then have "results_df solve data = Inl TypeError"
      by (simp only: run)
    then show ?thesis
      unfolding if_not_P [OF False] .
  qed
qed

lemma grouped_data_ship_only:
  "grouped_data ship_only = [((Str ''B'', Str ''Ship''), 60), ((Str ''C'', Str ''Ship''), 40)]"
  by (simp add: grouped_data_def ship_only_def group_key_def group_rows_def Weight_in_kg_def
      cell_rank_def label_rank_def)

lemma problem_ship_only_built: "\<exists>p. problem ship_only = Inr p"
  by (rule problem_known) (simp add: grouped_data_ship_only cost_per_kg_def)

lemma results_ship_only:
  "results (decision_vars (grouped_data ship_only)) ship_only_values =
     Inr [\<lparr>Warehouse = Str ''B'', Mode = Str ''Ship'', Weight = 60, Cost = 600\<rparr>,
          \<lparr>Warehouse = Str ''C'', Mode = Str ''Ship'', Weight = 40, Cost = 400\<rparr>]"
  by (simp add: grouped_data_ship_only decision_vars_def cost_of_def cost_per_kg_def
      ship_only_values_def)

lemma ship_only_no_feasible_point:
  assumes "problem ship_only = Inr p"
  shows "\<not> feasible p x"
proof
  assume "feasible p x"
  then have all: "list_all (holds x) (constraints p)"
    by (simp add: feasible_def)
  have T: "total_actual_weight ship_only = 100"
    by (simp add: total_actual_weight_def ship_only_def Weight_in_kg_def)
  have "holds x (total_weight_constraint (decision_vars (grouped_data ship_only)) 100)"
    using all by (simp add: problem_constraints [OF assms] T)
  then have eq: "x (Str ''B'', Str ''Ship'') + x (Str ''C'', Str ''Ship'') = 100"
    by (simp add: holds_def total_weight_constraint_def lhs_value_all grouped_data_ship_only)
  have "holds x (max_allocation (decision_vars (grouped_data ship_only)) 100 ''Ship'')"
    using all by (simp add: problem_constraints [OF assms] T cost_per_kg_def)
  then have "x (Str ''B'', Str ''Ship'') + x (Str ''C'', Str ''Ship'') \<le> 50"
    by (simp add: holds_def max_allocation_def lhs_value_where grouped_data_ship_only)
  with eq show False by simp
qed

text \<open>
  C7 as stated fails. The sea-only input has no feasible allocation, yet with the status
  \<^verbatim>\<open>Infeasible\<close> and values in the variables the script reports a full table.
\<close>

theorem nonoptimal_still_reported_counterexample:
  "results_df (returning \<lparr>status = LpStatusInfeasible, varValue = ship_only_values\<rparr>) ship_only =
     Inr [\<lparr>Warehouse = Str ''B'', Mode = Str ''Ship'', Weight = 60, Cost = 600\<rparr>,
          \<lparr>Warehouse = Str ''C'', Mode = Str ''Ship'', Weight = 40, Cost = 400\<rparr>]"
  using problem_ship_only_built
  by (auto simp: results_df_def returning_def results_ship_only)

text \<open>
  Scenario B under the statuses \<^verbatim>\<open>Unbounded\<close> and \<^verbatim>\<open>Optimal\<close> with the same
  values gives the same three rows; scenario A with no value left gives \<^verbatim>\<open>TypeError\<close>.
\<close>

theorem results_ignore_status_witness:
  "results_df (returning \<lparr>status = LpStatusUnbounded, varValue = scenario_B_values\<rparr>) scenario_B
     = results_df (returning \<lparr>status = LpStatusOptimal, varValue = scenario_B_values\<rparr>) scenario_B
   \<and> (\<exists>rows. results_df (returning \<lparr>status = LpStatusUnbounded, varValue = scenario_B_values\<rparr>)
               scenario_B = Inr rows
          \<and> map (\<lambda>row. (Warehouse row, Mode row)) rows
              = [(Str ''A'', Str ''Flight''), (Str ''A'', Str ''Road''), (Str ''A'', Str ''Ship'')]
          \<and> map (\<lambda>row. Some (Weight row)) rows = [Some 20, Some 50, Some 30])
   \<and> results_df (returning \<lparr>status = LpStatusInfeasible, varValue = no_values\<rparr>) scenario_A
       = Inl TypeError"
proof -
  let ?u = "returning \<lparr>status = LpStatusUnbounded, varValue = scenario_B_values\<rparr>"
  let ?o = "returning \<lparr>status = LpStatusOptimal, varValue = scenario_B_values\<rparr>"
  let ?n = "returning \<lparr>status = LpStatusInfeasible, varValue = no_values\<rparr>"
  obtain pB where pB: "problem scenario_B = Inr pB"
    using problem_scenario_B_built by (rule exE)
  obtain pA where pA: "problem scenario_A = Inr pA"
    using problem_scenario_A_built by (rule exE)
  have same: "\<forall>p. varValue (?u p) = varValue (?o p)"
    by (simp add: returning_def)
  have first: "results_df ?u scenario_B = results_df ?o scenario_B"
    using conjunct1 [OF results_ignore_status [of ?u ?o scenario_B pB]] same by (rule mp)
  have all: "\<forall>k \<in> set (map fst (grouped_data scenario_B)). varValue (?u pB) k \<noteq> None"
    by (simp add: grouped_data_scenario_B returning_def scenario_B_values_def)
  have "\<exists>rows. results_df ?u scenario_B = Inr rows
          \<and> map (\<lambda>row. (Warehouse row, Mode row)) rows = map fst (grouped_data scenario_B)
          \<and> map (\<lambda>row. Some (Weight row)) rows
              = map (varValue (?u pB)) (map fst (grouped_data scenario_B))"
    using conjunct2 [OF results_ignore_status [of ?u ?u scenario_B pB], THEN mp, OF pB]
    unfolding if_P [OF all] .
  then have second: "\<exists>rows. results_df ?u scenario_B = Inr rows
          \<and> map (\<lambda>row. (Warehouse row, Mode row)) rows
              = [(Str ''A'', Str ''Flight''), (Str ''A'', Str ''Road''), (Str ''A'', Str ''Ship'')]
          \<and> map (\<lambda>row. Some (Weight row)) rows = [Some 20, Some 50, Some 30]"
    by (simp add: grouped_data_scenario_B returning_def scenario_B_values_def)
  have missing: "\<not> (\<forall>k \<in> set (map fst (grouped_data scenario_A)). varValue (?n pA) k \<noteq> None)"
    by (simp add: grouped_data_scenario_A returning_def no_values_def)
  have third: "results_df ?n scenario_A = Inl TypeError"
    using conjunct2 [OF results_ignore_status [of ?n ?n scenario_A pA], THEN mp, OF pA]
    unfolding if_not_P [OF missing] .
  from first second third show ?thesis
    by (intro conjI)
qed

section \<open>The empty input\<close>

lemma grouped_data_empty: "grouped_data [] = []"
  by (simp add: grouped_data_def)

lemma problem_empty:
  "problem [] =
     Inr \<lparr>objective = [],
          constraints =
            [\<lparr>constraint_name = None, lhs = [], sense = LpConstraintEQ, rhs = 0\<rparr>,
             \<lparr>constraint_name = Some ''min_Flight_allocation'', lhs = [],
              sense = LpConstraintGE, rhs = 0\<rparr>,
             \<lparr>constraint_name = Some ''min_Ship_allocation'', lhs = [],
              sense = LpConstraintGE, rhs = 0\<rparr>,
             \<lparr>constraint_name = Some ''min_Road_allocation'', lhs = [],
              sense = LpConstraintGE, rhs = 0\<rparr>,
             \<lparr>constraint_name = Some ''max_Flight_allocation'', lhs = [],
              sense = LpConstraintLE, rhs = 0\<rparr>,
             \<lparr>constraint_name = Some ''max_Ship_allocation'', lhs = [],
              sense = LpConstraintLE, rhs = 0\<rparr>,
             \<lparr>constraint_name = Some ''max_Road_allocation'', lhs = [],
              sense = LpConstraintLE, rhs = 0\<rparr>]\<rparr>"
  by (simp add: problem_def Let_def grouped_data_empty total_actual_weight_def decision_vars_def
      cost_per_kg_def total_weight_constraint_def min_allocation_def max_allocation_def
      lpSum_def vars_where_def)

text \<open>
  C6 as stated fails: on the empty table nothing is raised, and the problem is built
  over the grand total 0.
\<close>

theorem empty_input_counterexample:
  "problem [] =
     Inr \<lparr>objective = [],
          constraints =
            [\<lparr>constraint_name = None, lhs = [], sense = LpConstraintEQ, rhs = 0\<rparr>,
             \<lparr>constraint_name = Some ''min_Flight_allocation'', lhs = [],
              sense = LpConstraintGE, rhs = 0\<rparr>,
             \<lparr>constraint_name = Some ''min_Ship_allocation'', lhs = [],
              sense = LpConstraintGE, rhs = 0\<rparr>,
             \<lparr>constraint_name = Some ''min_Road_allocation'', lhs = [],
              sense = LpConstraintGE, rhs = 0\<rparr>,
             \<lparr>constraint_name = Some ''max_Flight_allocation'', lhs = [],
              sense = LpConstraintLE, rhs = 0\<rparr>,
             \<lparr>constraint_name = Some ''max_Ship_allocation'', lhs = [],
              sense = LpConstraintLE, rhs = 0\<rparr>,
             \<lparr>constraint_name = Some ''max_Road_allocation'', lhs = [],
              sense = LpConstraintLE, rhs = 0\<rparr>]\<rparr>"
  by (rule problem_empty)

text \<open>
  C6, as the script behaves. On the empty table lines 19-77 raise nothing: the grouped
  table is empty, the grand total is 0, the problem is built with an empty objective
  and the mass-balance, floor and cap constraints over empty sums with bound 0, which
  every assignment satisfies, and the result table is empty under every solver.
\<close>

theorem empty_input_proceeds:
  "grouped_data [] = []
   \<and> total_actual_weight [] = 0
   \<and> (\<exists>p. problem [] = Inr p
          \<and> objective p = []
          \<and> map lhs (constraints p) = [[], [], [], [], [], [], []]
          \<and> map rhs (constraints p) = [0, 0, 0, 0, 0, 0, 0]
          \<and> feasible p x)
   \<and> results_df solve [] = Inr []"
  by (simp add: problem_empty grouped_data_empty total_actual_weight_def results_df_def
      decision_vars_def feasible_def holds_def lhs_value_def)

section \<open>Scenario A\<close>

text \<open>
  C8 as stated fails: on scenario A, a solver that reports \<^verbatim>\<open>Infeasible\<close> leaves the
  script with a one-row table (when the variable holds a value) or with
  \<^verbatim>\<open>TypeError\<close> (when it holds none), not with an infeasibility error.
\<close>

theorem scenario_A_counterexample:
  "results_df (returning \<lparr>status = LpStatusInfeasible, varValue = scenario_A_values\<rparr>) scenario_A
     = Inr [\<lparr>Warehouse = Str ''A'', Mode = Str ''Road'', Weight = 100, Cost = 500\<rparr>]
   \<and> results_df (returning \<lparr>status = LpStatusInfeasible, varValue = no_values\<rparr>) scenario_A
     = Inl TypeError"
  using problem_scenario_A_built
  by (auto simp: results_df_def returning_def grouped_data_scenario_A decision_vars_def
      cost_of_def cost_per_kg_def scenario_A_values_def no_values_def)

lemma scenario_A_no_feasible_point:
  assumes "problem scenario_A = Inr p"
  shows "\<not> feasible p x"
proof
  assume "feasible p x"
  then have all: "list_all (holds x) (constraints p)"
    by (simp add: feasible_def)
  have "holds x (total_weight_constraint (decision_vars (grouped_data scenario_A)) 100)"
    using all by (simp add: problem_constraints [OF assms] total_scenario_A)
  then have eq: "x (Str ''A'', Str ''Road'') = 100"
    by (simp add: holds_def total_weight_constraint_def lhs_value_all grouped_data_scenario_A)
  have "holds x (max_allocation (decision_vars (grouped_data scenario_A)) 100 ''Road'')"
    using all by (simp add: problem_constraints [OF assms] total_scenario_A cost_per_kg_def)
  then have "x (Str ''A'', Str ''Road'') \<le> 50"
    by (simp add: holds_def max_allocation_def lhs_value_where grouped_data_scenario_A)
  with eq show False by simp
qed

text \<open>
  C8, as the script behaves. The problem built for scenario A has no feasible point:
  the mass balance forces the one variable to 100 while the cap for \<^verbatim>\<open>Road\<close> allows
  50, and the floor for the absent mode \<^verbatim>\<open>Flight\<close> reads \<open>0 \<ge> 20\<close>. The script
  raises no infeasibility error: under every solver it ends with the single row for
  (A, Road) at the value the solver left, or with \<^verbatim>\<open>TypeError\<close> when there is none.
\<close>

theorem scenario_A_infeasible:
  "\<exists>p. problem scenario_A = Inr p
      \<and> (\<forall>x. \<not> feasible p x)
      \<and> (\<forall>x. \<not> holds x (min_allocation (decision_vars (grouped_data scenario_A))
                          (total_actual_weight scenario_A) ''Flight''))
      \<and> (\<forall>solve. results_df solve scenario_A =
            (case varValue (solve p) (Str ''A'', Str ''Road'') of
               None \<Rightarrow> Inl TypeError
             | Some v \<Rightarrow> Inr [\<lparr>Warehouse = Str ''A'', Mode = Str ''Road'', Weight = v, Cost = v * 5\<rparr>]))"
proof -
  obtain p where p: "problem scenario_A = Inr p"
    using problem_scenario_A_built by (rule exE)
  have "\<not> feasible p x" for x
    using p by (rule scenario_A_no_feasible_point)
  moreover have "\<not> holds x (min_allocation (decision_vars (grouped_data scenario_A))
                          (total_actual_weight scenario_A) ''Flight'')" for x
    by (simp add: holds_def min_allocation_def lhs_value_where grouped_data_scenario_A
        total_scenario_A)
  moreover have "results_df solve scenario_A =
            (case varValue (solve p) (Str ''A'', Str ''Road'') of
               None \<Rightarrow> Inl TypeError
             | Some v \<Rightarrow> Inr [\<lparr>Warehouse = Str ''A'', Mode = Str ''Road'', Weight = v, Cost = v * 5\<rparr>])"
    for solve
    by (simp add: results_df_def p grouped_data_scenario_A decision_vars_def cost_of_def
        cost_per_kg_def
        split: option.splits)
  ultimately show ?thesis
    using p by (intro exI [of _ p]) simp
qed

end
